theory Spec2Isabelle
  imports Main
begin

section \<open>The v1 to v3 resource conversion of calicoctl (commands/convert.go)\<close>

subsection \<open>Data model\<close>

text \<open>
  A Go \<^verbatim>\<open>error\<close> is an interface whose one method is \<^verbatim>\<open>Error() string\<close>; the command only
  ever formats an error with \<^verbatim>\<open>%v\<close> or \<^verbatim>\<open>Println\<close>, so an error is modelled by its message.
  A nil error, a nil interface value and a nil pointer are \<open>None\<close>. A Go result pair
  \<^verbatim>\<open>(value, err)\<close> stays a pair: nothing in the type keeps both from being non-nil.
\<close>

type_synonym error = string

text \<open>\<^verbatim>\<open>unversioned.TypeMetadata\<close> and a v1 resource, whose other fields are the body \<open>'b\<close>.\<close>

record TypeMetadata =
  Kind :: string
  APIVersion :: string

record 'b Resource =
  GetTypeMetadata :: TypeMetadata
  ResourceBody :: 'b

text \<open>
  The interface \<^verbatim>\<open>conversion.Converter\<close>: a v1 resource to a backend KVPair (a pointer, so
  possibly nil), and a KVPair to a v3 resource (an interface value, so possibly nil).
\<close>

record ('b, 'k, 'o) Converter =
  APIV1ToBackendV1 :: "'b Resource \<Rightarrow> 'k option \<times> error option"
  BackendV1ToAPIV3 :: "'k option \<Rightarrow> 'o option \<times> error option"

text \<open>
  The seven empty struct types of the package \<^verbatim>\<open>conversionv1v3\<close> that the command
  instantiates (\<^verbatim>\<open>conversion.Node{}\<close>, ...). The package is a library outside this
  repository: its method table is the parameter \<open>lib\<close> of the functions below, and a
  method call on the interface value \<open>convRes\<close> is \<open>lib convRes\<close> applied.
\<close>

datatype conversion =
    conversion_Node
  | conversion_HostEndpoint
  | conversion_WorkloadEndpoint
  | conversion_Profile
  | conversion_Policy
  | conversion_IPPool
  | conversion_BGPPeer

text \<open>
  What the command does besides computing values, in the order it does it: the calls of
  the converter methods, the writes to standard output, the log call and the call of
  the printer.
\<close>

datatype ('b, 'k, 'o) event =
    Call_APIV1ToBackendV1 conversion "'b Resource"
  | Call_BackendV1ToAPIV3 conversion "'k option"
  | Stdout string
  | Log_Infof "'o option list"
  | Call_print "'o option list"

text \<open>How a function ends: it returns to its caller, or \<^verbatim>\<open>os.Exit\<close> ends the process.\<close>

datatype 'a outcome = Returned 'a | Exited int

subsection \<open>strings.ToLower\<close>

text \<open>
  A Go string is a sequence of bytes, as a HOL \<open>string\<close> is. On a string of ASCII bytes
  \<^verbatim>\<open>strings.ToLower\<close> adds \<^verbatim>\<open>'a' - 'A'\<close> to the bytes \<^verbatim>\<open>'A'\<close> to \<^verbatim>\<open>'Z'\<close> and keeps the others. On a
  string with a byte from \<^verbatim>\<open>0x80\<close> up it maps each rune through the Unicode tables of the
  Go library; that mapping is the parameter \<open>ul\<close>.
\<close>

definition isASCII :: "string \<Rightarrow> bool" where
  "isASCII s = list_all (\<lambda>c. (of_char c :: nat) < 128) s"

definition lower_byte :: "char \<Rightarrow> char" where
  "lower_byte c =
     (if 65 \<le> (of_char c :: nat) \<and> (of_char c :: nat) \<le> 90
      then char_of ((of_char c :: nat) + 32) else c)"

definition ToLower :: "(string \<Rightarrow> string) \<Rightarrow> string \<Rightarrow> string" where
  "ToLower ul s = (if isASCII s then map lower_byte s else ul s)"

subsection \<open>convert and convertResource\<close>

text \<open>
  \<^verbatim>\<open>convert\<close> (lines 134 to 148): the result pair, and the method calls made.
\<close>

definition convert ::
  "(conversion \<Rightarrow> ('b, 'k, 'o) Converter) \<Rightarrow> conversion \<Rightarrow> 'b Resource
     \<Rightarrow> ('o option \<times> error option) \<times> ('b, 'k, 'o) event list" where
  "convert lib convRes v1resource =
     (case APIV1ToBackendV1 (lib convRes) v1resource of
        (kvp, Some err) \<Rightarrow> ((None, Some err), [Call_APIV1ToBackendV1 convRes v1resource])
      | (kvp, None) \<Rightarrow>
          (case BackendV1ToAPIV3 (lib convRes) kvp of
             (res, Some err) \<Rightarrow>
               ((None, Some err),
                [Call_APIV1ToBackendV1 convRes v1resource, Call_BackendV1ToAPIV3 convRes kvp])
           | (res, None) \<Rightarrow>
               ((res, None),
                [Call_APIV1ToBackendV1 convRes v1resource, Call_BackendV1ToAPIV3 convRes kvp])))"

text \<open>
  The error of the default case: \<^verbatim>\<open>fmt.Errorf\<close> with the verb \<^verbatim>\<open>%s\<close>, which writes the
  bytes of the kind as they are, between two single quotes.
\<close>

definition Errorf_not_supported :: "string \<Rightarrow> error" where
  "Errorf_not_supported kind =
     ''conversion for the resource type '' @ [CHR 0x27] @ kind @ [CHR 0x27] @
     '' is not supported''"

text \<open>\<^verbatim>\<open>convertResource\<close> (lines 112 to 132): the switch on the lower-cased kind.\<close>

definition convertResource ::
  "(string \<Rightarrow> string) \<Rightarrow> (conversion \<Rightarrow> ('b, 'k, 'o) Converter) \<Rightarrow> 'b Resource
     \<Rightarrow> ('o option \<times> error option) \<times> ('b, 'k, 'o) event list" where
  "convertResource ul lib v1resource =
     (let k = ToLower ul (Kind (GetTypeMetadata v1resource)) in
      if k = ''node'' then convert lib conversion_Node v1resource
      else if k = ''hostendpoint'' then convert lib conversion_HostEndpoint v1resource
      else if k = ''workloadendpoint'' then convert lib conversion_WorkloadEndpoint v1resource
      else if k = ''profile'' then convert lib conversion_Profile v1resource
      else if k = ''policy'' then convert lib conversion_Policy v1resource
      else if k = ''ippool'' then convert lib conversion_IPPool v1resource
      else if k = ''bgppeer'' then convert lib conversion_BGPPeer v1resource
      else ((None, Some (Errorf_not_supported (Kind (GetTypeMetadata v1resource)))), []))"

subsection \<open>Convert, from the loop on\<close>

text \<open>
  The loop of \<^verbatim>\<open>Convert\<close> (lines 94 to 102) over the loaded resources, with the slice
  \<open>results\<close> built so far (a nil slice is the empty list). At the first error the
  command prints it and ends the process with status 1.
\<close>

fun Convert_loop ::
  "(string \<Rightarrow> string) \<Rightarrow> (conversion \<Rightarrow> ('b, 'k, 'o) Converter) \<Rightarrow> 'b Resource list
     \<Rightarrow> 'o option list \<Rightarrow> 'o option list outcome \<times> ('b, 'k, 'o) event list" where
  "Convert_loop ul lib [] results = (Returned results, [])"
| "Convert_loop ul lib (v1Resource # resV1) results =
     (case convertResource ul lib v1Resource of
        ((v3Resource, Some err), calls) \<Rightarrow>
          (Exited 1,
           calls @ [Stdout (''Failed to execute command: '' @ err @ [CHR 0x0A])])
      | ((v3Resource, None), calls) \<Rightarrow>
          (case Convert_loop ul lib resV1 (results @ [v3Resource]) of
             (out, evs) \<Rightarrow> (out, calls @ evs)))"

text \<open>
  \<^verbatim>\<open>Convert\<close> from line 94 to its end, given the resources \<open>resV1\<close> that the loader
  returned and the printer \<open>rp\<close> that the output option chose (the parsing of the
  arguments, the choice of the printer and the loading, lines 58 to 92, come before).
  \<open>rp results\<close> is what \<^verbatim>\<open>rp.print(nil, results)\<close> returns. \<^verbatim>\<open>Convert\<close> has no result value.
\<close>

definition Convert ::
  "(string \<Rightarrow> string) \<Rightarrow> (conversion \<Rightarrow> ('b, 'k, 'o) Converter)
     \<Rightarrow> ('o option list \<Rightarrow> error option) \<Rightarrow> 'b Resource list
     \<Rightarrow> unit outcome \<times> ('b, 'k, 'o) event list" where
  "Convert ul lib rp resV1 =
     (case Convert_loop ul lib resV1 [] of
        (Exited n, evs) \<Rightarrow> (Exited n, evs)
      | (Returned results, evs) \<Rightarrow>
          (Returned (),
           evs @ [Log_Infof results, Call_print results] @
           (case rp results of
              None \<Rightarrow> []
            | Some err \<Rightarrow> [Stdout (err @ [CHR 0x0A])])))"

subsection \<open>Kinds of events\<close>

text \<open>The calls of the converter library, as opposed to output, logging and printing.\<close>

fun is_converter_call :: "('b, 'k, 'o) event \<Rightarrow> bool" where
  "is_converter_call (Call_APIV1ToBackendV1 c r) = True"
| "is_converter_call (Call_BackendV1ToAPIV3 c kvp) = True"
| "is_converter_call (Stdout s) = False"
| "is_converter_call (Log_Infof rs) = False"
| "is_converter_call (Call_print rs) = False"

fun is_Call_print :: "('b, 'k, 'o) event \<Rightarrow> bool" where
  "is_Call_print (Call_print rs) = True"
| "is_Call_print e = False"

subsection \<open>Letter-casings of a kind string\<close>

text \<open>
  \<open>t\<close> is a letter-casing of \<open>s\<close> when it has the bytes of \<open>s\<close>, each as it is or as the
  upper-case letter of it. The kind strings of the switch are made of the letters
  \<^verbatim>\<open>a\<close> to \<^verbatim>\<open>z\<close>.
\<close>

definition upper_byte :: "char \<Rightarrow> char" where
  "upper_byte c =
     (if 97 \<le> (of_char c :: nat) \<and> (of_char c :: nat) \<le> 122
      then char_of ((of_char c :: nat) - 32) else c)"

definition letter_casing_of :: "string \<Rightarrow> string \<Rightarrow> bool" where
  "letter_casing_of s t = list_all2 (\<lambda>a b. b = a \<or> b = upper_byte a) s t"

definition lower_letters :: "string \<Rightarrow> bool" where
  "lower_letters s = list_all (\<lambda>c. 97 \<le> (of_char c :: nat) \<and> (of_char c :: nat) \<le> 122) s"

subsection \<open>A converter library and resources for closed instances\<close>

text \<open>
  A library of the shape the interface allows, over resources whose body is a name: the
  first stage rejects the empty name, the second stage rejects the key \<^verbatim>\<open>bad\<close> and
  returns a value beside its error there, and a converted resource carries the name of
  the converter that made it.
\<close>

fun conversion_name :: "conversion \<Rightarrow> string" where
  "conversion_name conversion_Node = ''Node''"
| "conversion_name conversion_HostEndpoint = ''HostEndpoint''"
| "conversion_name conversion_WorkloadEndpoint = ''WorkloadEndpoint''"
| "conversion_name conversion_Profile = ''Profile''"
| "conversion_name conversion_Policy = ''Policy''"
| "conversion_name conversion_IPPool = ''IPPool''"
| "conversion_name conversion_BGPPeer = ''BGPPeer''"

definition sample_lib :: "conversion \<Rightarrow> (string, string, string) Converter" where
  "sample_lib c =
     \<lparr>APIV1ToBackendV1 =
        (\<lambda>r. if ResourceBody r = [] then (None, Some ''name is empty'')
              else (Some (ResourceBody r), None)),
      BackendV1ToAPIV3 =
        (\<lambda>kvp. case kvp of
                  None \<Rightarrow> (None, Some ''no key'')
                | Some n \<Rightarrow>
                    if n = ''bad'' then (Some n, Some ''bad key'')
                    else (Some (conversion_name c @ ''/'' @ n), None))\<rparr>"

definition sample_resource :: "string \<Rightarrow> string \<Rightarrow> string Resource" where
  "sample_resource kind name =
     \<lparr>GetTypeMetadata = \<lparr>Kind = kind, APIVersion = ''v1''\<rparr>, ResourceBody = name\<rparr>"

text \<open>
  The resources are ASCII, so the Unicode mapping is never reached; the identity stands
  for it. Two printers: one that succeeds, one that returns an error.
\<close>

definition sample_ul :: "string \<Rightarrow> string" where
  "sample_ul s = s"

definition printer_ok :: "string option list \<Rightarrow> error option" where
  "printer_ok results = None"


text \<open>
  The batch of the spec's scenario, a resource of unknown kind between two that
  convert, and a batch in which both resources convert.
\<close>

definition mixed_batch :: "string Resource list" where
  "mixed_batch =
     [sample_resource ''node'' ''n1'', sample_resource ''widget'' ''w1'',
      sample_resource ''policy'' ''p1'']"

definition good_batch :: "string Resource list" where
  "good_batch = [sample_resource ''node'' ''n1'', sample_resource ''policy'' ''p1'']"

text \<open>A batch in which both resources fail, each with its own error.\<close>

definition two_failures :: "string Resource list" where
  "two_failures = [sample_resource ''widget'' ''w1'', sample_resource ''profile'' []]"

section \<open>Lemmas\<close>

subsection \<open>The events and the results of one conversion\<close>

lemma convert_calls: "list_all is_converter_call (snd (convert lib c r))"
  by (simp add: convert_def split: prod.splits option.splits)

lemma convertResource_calls: "list_all is_converter_call (snd (convertResource ul lib r))"
  by (simp add: convertResource_def Let_def convert_calls)

lemma convert_error_nil:
  "snd (fst (convert lib c r)) \<noteq> None \<Longrightarrow> fst (fst (convert lib c r)) = None"
  by (simp add: convert_def split: prod.splits option.splits)

lemma Convert_loop_all_ok:
  "\<forall>r\<in>set xs. snd (fst (convertResource ul lib r)) = None \<Longrightarrow>
   Convert_loop ul lib xs acc =
     (Returned (acc @ map (\<lambda>r. fst (fst (convertResource ul lib r))) xs),
      concat (map (\<lambda>r. snd (convertResource ul lib r)) xs))"
proof (induction xs arbitrary: acc)
  case Nil
  show ?case by simp
next
  case (Cons x xs)
  obtain v c where x: "convertResource ul lib x = ((v, None), c)"
    using Cons.prems by (cases "convertResource ul lib x") auto
  from Cons.prems have "\<forall>r\<in>set xs. snd (fst (convertResource ul lib r)) = None" by simp
  from Cons.IH [OF this, of "acc @ [v]"] x show ?case by simp
qed

lemma Convert_loop_first_error:
  assumes "\<forall>r\<in>set ys. snd (fst (convertResource ul lib r)) = None"
    and "snd (fst (convertResource ul lib x)) = Some e"
  shows "Convert_loop ul lib (ys @ x # zs) acc =
     (Exited 1,
      concat (map (\<lambda>r. snd (convertResource ul lib r)) ys) @ snd (convertResource ul lib x) @
      [Stdout (''Failed to execute command: '' @ e @ [CHR 0x0A])])"
  using assms(1)
proof (induction ys arbitrary: acc)
  case Nil
  obtain v c where x: "convertResource ul lib x = ((v, Some e), c)"
    using assms(2) by (cases "convertResource ul lib x") auto
  then show ?case by simp
next
  case (Cons y ys)
  obtain v c where y: "convertResource ul lib y = ((v, None), c)"
    using Cons.prems by (cases "convertResource ul lib y") auto
  from Cons.prems have "\<forall>r\<in>set ys. snd (fst (convertResource ul lib r)) = None" by simp
  from Cons.IH [OF this, of "acc @ [v]"] y show ?case by simp
qed

lemma Convert_loop_Returned:
  "Convert_loop ul lib xs acc = (Returned out, evs) \<Longrightarrow>
   out = acc @ map (\<lambda>r. fst (fst (convertResource ul lib r))) xs"
proof (induction xs arbitrary: acc evs)
  case Nil
  then show ?case by simp
next
  case (Cons x xs)
  obtain v e c where x: "convertResource ul lib x = ((v, e), c)"
    by (metis surj_pair)
  show ?case
  proof (cases e)
    case None
    obtain o' evs' where l: "Convert_loop ul lib xs (acc @ [v]) = (o', evs')"
      by (metis surj_pair)
    with Cons.prems x None have "o' = Returned out" by simp
    with l Cons.IH [of "acc @ [v]" evs'] x None show ?thesis by simp
  next
    case (Some err)
    with Cons.prems x show ?thesis by simp
  qed
qed

lemma failing_split:
  assumes "x \<in> set xs" "snd (fst (convertResource ul lib x)) \<noteq> None"
  shows "\<exists>ys y zs e. xs = ys @ y # zs \<and>
           (\<forall>r\<in>set ys. snd (fst (convertResource ul lib r)) = None) \<and>
           snd (fst (convertResource ul lib y)) = Some e"
proof -
  from assms have "\<exists>x\<in>set xs. snd (fst (convertResource ul lib x)) \<noteq> None" by blast
  from split_list_first_prop [OF this]
  obtain ys y zs where "xs = ys @ y # zs"
      "snd (fst (convertResource ul lib y)) \<noteq> None"
      "\<forall>r\<in>set ys. \<not> snd (fst (convertResource ul lib r)) \<noteq> None"
    by blast
  then show ?thesis by auto
qed

lemma list_all_calls_concat:
  "list_all is_converter_call (concat (map (\<lambda>r. snd (convertResource ul lib r)) xs))"
  by (induction xs) (simp_all add: convertResource_calls)

lemma convert_ok_stages:
  "snd (fst (convert lib c r)) = None \<Longrightarrow>
   fst (fst (convert lib c r)) =
     fst (BackendV1ToAPIV3 (lib c) (fst (APIV1ToBackendV1 (lib c) r)))"
  by (simp add: convert_def split: prod.splits option.splits)

subsection \<open>Lower-casing a letter-casing\<close>

lemma char_eq_char_of: "c = char_of (n::nat) \<longleftrightarrow> take_bit 8 n = of_char c"
  using char_of_eq_iff [of n c] by auto

lemma lower_byte_casing:
  assumes "97 \<le> (of_char a :: nat)" "(of_char a :: nat) \<le> 122" "b = a \<or> b = upper_byte a"
  shows "(of_char b :: nat) < 128 \<and> lower_byte b = a"
proof -
  from assms(3) show ?thesis
  proof
    assume "b = a"
    with assms(1,2) show ?thesis by (simp add: lower_byte_def)
  next
    assume b: "b = upper_byte a"
    from assms(1,2) have m: "((of_char a :: nat) - 32) mod 256 = of_char a - 32" by simp
    from assms(1,2) b have ob: "(of_char b :: nat) = of_char a - 32"
      by (simp add: upper_byte_def m)
    from assms(1,2) have "char_of ((of_char a :: nat) - 32 + 32) = a" by simp
    moreover from assms(1,2) have "65 \<le> (of_char a :: nat) - 32" "(of_char a :: nat) - 32 \<le> 90"
      by arith+
    ultimately show ?thesis using ob by (simp add: lower_byte_def)
  qed
qed

lemma casing_ToLower:
  "letter_casing_of s t \<Longrightarrow> lower_letters s \<Longrightarrow> ToLower ul t = s"
proof -
  have "list_all2 (\<lambda>a b. b = a \<or> b = upper_byte a) s t \<Longrightarrow>
        list_all (\<lambda>c. 97 \<le> (of_char c :: nat) \<and> (of_char c :: nat) \<le> 122) s \<Longrightarrow>
        list_all (\<lambda>c. (of_char c :: nat) < 128) t \<and> map lower_byte t = s"
    by (induction s t rule: list_all2_induct) (auto simp: lower_byte_casing)
  then show "letter_casing_of s t \<Longrightarrow> lower_letters s \<Longrightarrow> ToLower ul t = s"
    by (simp add: letter_casing_of_def lower_letters_def isASCII_def ToLower_def)
qed

lemma convertResource_of_lower:
  assumes "ToLower ul (Kind (GetTypeMetadata r)) = k"
  shows "(k = ''node'' \<longrightarrow> convertResource ul lib r = convert lib conversion_Node r) \<and>
   (k = ''hostendpoint'' \<longrightarrow> convertResource ul lib r = convert lib conversion_HostEndpoint r) \<and>
   (k = ''workloadendpoint'' \<longrightarrow>
      convertResource ul lib r = convert lib conversion_WorkloadEndpoint r) \<and>
   (k = ''profile'' \<longrightarrow> convertResource ul lib r = convert lib conversion_Profile r) \<and>
   (k = ''policy'' \<longrightarrow> convertResource ul lib r = convert lib conversion_Policy r) \<and>
   (k = ''ippool'' \<longrightarrow> convertResource ul lib r = convert lib conversion_IPPool r) \<and>
   (k = ''bgppeer'' \<longrightarrow> convertResource ul lib r = convert lib conversion_BGPPeer r)"
  using assms by (simp add: convertResource_def Let_def)

lemma convertResource_default:
  assumes "ToLower ul (Kind (GetTypeMetadata r)) \<notin>
      {''node'', ''hostendpoint'', ''workloadendpoint'', ''profile'', ''policy'', ''ippool'',
       ''bgppeer''}"
  shows "convertResource ul lib r =
      ((None, Some (Errorf_not_supported (Kind (GetTypeMetadata r)))), [])"
  using assms by (simp add: convertResource_def Let_def)

lemma convertResource_ok_stages:
  assumes "snd (fst (convertResource ul lib r)) = None"
  shows "\<exists>c. fst (fst (convertResource ul lib r)) =
     fst (BackendV1ToAPIV3 (lib c) (fst (APIV1ToBackendV1 (lib c) r)))"
proof (cases "ToLower ul (Kind (GetTypeMetadata r)) \<in>
      {''node'', ''hostendpoint'', ''workloadendpoint'', ''profile'', ''policy'', ''ippool'',
       ''bgppeer''}")
  case False
  from convertResource_default [OF False, of lib] assms show ?thesis by simp
next
  case True
  then have "\<exists>c. convertResource ul lib r = convert lib c r"
    using convertResource_of_lower [OF refl, of ul r lib] by auto
  then obtain c where c: "convertResource ul lib r = convert lib c r" ..
  with assms have "snd (fst (convert lib c r)) = None" by simp
  from convert_ok_stages [OF this] c show ?thesis by auto
qed

subsection \<open>The sample resources\<close>

lemma sample_node: "convertResource sample_ul sample_lib (sample_resource ''node'' ''n1'') =
     ((Some ''Node/n1'', None),
      [Call_APIV1ToBackendV1 conversion_Node (sample_resource ''node'' ''n1''),
       Call_BackendV1ToAPIV3 conversion_Node (Some ''n1'')])"
  by (simp add: convertResource_def ToLower_def isASCII_def lower_byte_def convert_def
      sample_lib_def sample_resource_def)

lemma sample_widget: "convertResource sample_ul sample_lib (sample_resource ''widget'' ''w1'') =
     ((None, Some (Errorf_not_supported ''widget'')), [])"
  by (simp add: convertResource_def ToLower_def isASCII_def lower_byte_def
      sample_resource_def)

lemma sample_policy: "convertResource sample_ul sample_lib (sample_resource ''policy'' ''p1'') =
     ((Some ''Policy/p1'', None),
      [Call_APIV1ToBackendV1 conversion_Policy (sample_resource ''policy'' ''p1''),
       Call_BackendV1ToAPIV3 conversion_Policy (Some ''p1'')])"
  by (simp add: convertResource_def ToLower_def isASCII_def lower_byte_def convert_def
      sample_lib_def sample_resource_def)

lemma good_batch_ok:
  "\<forall>r\<in>set good_batch. snd (fst (convertResource sample_ul sample_lib r)) = None"
  by (simp add: good_batch_def sample_node sample_policy)

subsection \<open>The loop and the command\<close>

lemma Convert_success:
  assumes "\<forall>r\<in>set resV1. snd (fst (convertResource ul lib r)) = None"
  shows "Convert ul lib rp resV1 =
     (Returned (),
      concat (map (\<lambda>r. snd (convertResource ul lib r)) resV1) @
      [Log_Infof (map (\<lambda>r. fst (fst (convertResource ul lib r))) resV1),
       Call_print (map (\<lambda>r. fst (fst (convertResource ul lib r))) resV1)] @
      (case rp (map (\<lambda>r. fst (fst (convertResource ul lib r))) resV1) of
         None \<Rightarrow> []
       | Some err \<Rightarrow> [Stdout (err @ [CHR 0x0A])]))"
  using Convert_loop_all_ok [OF assms, of "[]"] by (simp add: Convert_def)

lemma Convert_failure:
  assumes "x \<in> set resV1" and "snd (fst (convertResource ul lib x)) \<noteq> None"
  shows "\<exists>ys y zs e. resV1 = ys @ y # zs \<and>
      (\<forall>r\<in>set ys. snd (fst (convertResource ul lib r)) = None) \<and>
      snd (fst (convertResource ul lib y)) = Some e \<and>
      Convert ul lib rp resV1 =
        (Exited 1,
         concat (map (\<lambda>r. snd (convertResource ul lib r)) ys) @ snd (convertResource ul lib y) @
         [Stdout (''Failed to execute command: '' @ e @ [CHR 0x0A])])"
proof -
  from failing_split [OF assms]
  obtain ys y zs e where xs: "resV1 = ys @ y # zs"
    and ok: "\<forall>r\<in>set ys. snd (fst (convertResource ul lib r)) = None"
    and e: "snd (fst (convertResource ul lib y)) = Some e"
    by blast
  from Convert_loop_first_error [OF ok e, of zs "[]"] xs
  have "Convert ul lib rp resV1 =
        (Exited 1,
         concat (map (\<lambda>r. snd (convertResource ul lib r)) ys) @ snd (convertResource ul lib y) @
         [Stdout (''Failed to execute command: '' @ e @ [CHR 0x0A])])"
    by (simp add: Convert_def)
  with xs ok e show ?thesis by blast
qed

lemma no_print_in_calls: "list_all is_converter_call evs \<Longrightarrow> filter is_Call_print evs = []"
proof (induction evs)
  case Nil
  show ?case by simp
next
  case (Cons ev evs)
  then show ?case by (cases ev) simp_all
qed

lemma good_batch_run:
  "Convert sample_ul sample_lib rp good_batch =
     (Returned (),
      [Call_APIV1ToBackendV1 conversion_Node (sample_resource ''node'' ''n1''),
       Call_BackendV1ToAPIV3 conversion_Node (Some ''n1''),
       Call_APIV1ToBackendV1 conversion_Policy (sample_resource ''policy'' ''p1''),
       Call_BackendV1ToAPIV3 conversion_Policy (Some ''p1''),
       Log_Infof [Some ''Node/n1'', Some ''Policy/p1''],
       Call_print [Some ''Node/n1'', Some ''Policy/p1'']] @
      (case rp [Some ''Node/n1'', Some ''Policy/p1''] of
         None \<Rightarrow> []
       | Some err \<Rightarrow> [Stdout (err @ [CHR 0x0A])]))"
  by (simp add: Convert_def good_batch_def sample_node sample_policy)

lemma widget_run:
  "Convert sample_ul sample_lib rp [sample_resource ''widget'' ''w1''] =
     (Exited 1,
      [Stdout (''Failed to execute command: '' @ Errorf_not_supported ''widget'' @ [CHR 0x0A])])"
  by (simp add: Convert_def sample_widget)

lemma mixed_batch_run:
  "Convert sample_ul sample_lib rp mixed_batch =
     (Exited 1,
      [Call_APIV1ToBackendV1 conversion_Node (sample_resource ''node'' ''n1''),
       Call_BackendV1ToAPIV3 conversion_Node (Some ''n1''),
       Stdout (''Failed to execute command: '' @ Errorf_not_supported ''widget'' @ [CHR 0x0A])])"
  by (simp add: Convert_def mixed_batch_def sample_node sample_widget)

section \<open>Properties\<close>

text \<open>
  C1: when some resource of the input fails to convert (its kind is not supported, or
  a stage of its converter returns an error), the command reports the error of the
  first such resource on standard output and ends with status 1, whatever came before
  it: the loop returns no results, and besides the converter calls the error line is
  the only event, so the printer is never called.
\<close>

theorem Convert_fail_fast:
  assumes "x \<in> set resV1" and "snd (fst (convertResource ul lib x)) \<noteq> None"
  shows "\<exists>ys y zs e calls.
      resV1 = ys @ y # zs \<and>
      (\<forall>r\<in>set ys. snd (fst (convertResource ul lib r)) = None) \<and>
      snd (fst (convertResource ul lib y)) = Some e \<and>
      list_all is_converter_call calls \<and>
      Convert_loop ul lib resV1 [] =
        (Exited 1, calls @ [Stdout (''Failed to execute command: '' @ e @ [CHR 0x0A])]) \<and>
      Convert ul lib rp resV1 =
        (Exited 1, calls @ [Stdout (''Failed to execute command: '' @ e @ [CHR 0x0A])]) \<and>
      filter is_Call_print (snd (Convert ul lib rp resV1)) = []"
proof -
  from failing_split [OF assms]
  obtain ys y zs e where xs: "resV1 = ys @ y # zs"
    and ok: "\<forall>r\<in>set ys. snd (fst (convertResource ul lib r)) = None"
    and e: "snd (fst (convertResource ul lib y)) = Some e"
    by blast
  let ?calls = "concat (map (\<lambda>r. snd (convertResource ul lib r)) ys) @ snd (convertResource ul lib y)"
  let ?msg = "Stdout (''Failed to execute command: '' @ e @ [CHR 0x0A])"
  have l: "Convert_loop ul lib resV1 [] = (Exited 1, ?calls @ [?msg])"
    using Convert_loop_first_error [OF ok e, of zs "[]"] xs by simp
  then have c: "Convert ul lib rp resV1 = (Exited 1, ?calls @ [?msg])"
    by (simp add: Convert_def)
  have a: "list_all is_converter_call ?calls"
    by (simp add: list_all_calls_concat convertResource_calls)
  from no_print_in_calls [OF a]
  have f: "filter is_Call_print (snd (Convert ul lib rp resV1)) = []"
    by (simp add: c)
  from xs ok e l c a f show ?thesis by blast
qed

theorem Convert_fail_fast_witness:
  "sample_resource ''widget'' ''w1'' \<in> set mixed_batch \<and>
   snd (fst (convertResource sample_ul sample_lib (sample_resource ''widget'' ''w1''))) \<noteq> None \<and>
   Convert sample_ul sample_lib printer_ok mixed_batch =
     (Exited 1,
      [Call_APIV1ToBackendV1 conversion_Node (sample_resource ''node'' ''n1''),
       Call_BackendV1ToAPIV3 conversion_Node (Some ''n1''),
       Stdout (''Failed to execute command: '' @ Errorf_not_supported ''widget'' @ [CHR 0x0A])]) \<and>
   filter is_Call_print (snd (Convert sample_ul sample_lib printer_ok mixed_batch)) = []"
proof -
  have m: "sample_resource ''widget'' ''w1'' \<in> set mixed_batch"
    by (simp add: mixed_batch_def)
  have f: "snd (fst (convertResource sample_ul sample_lib (sample_resource ''widget'' ''w1''))) \<noteq> None"
    by (simp add: sample_widget)
  from Convert_fail_fast [OF m f, of printer_ok]
  have "filter is_Call_print (snd (Convert sample_ul sample_lib printer_ok mixed_batch)) = []"
    by blast
  with m f mixed_batch_run [of printer_ok] show ?thesis by simp
qed

text \<open>
  C2: when every resource of the input converts without error, the loop returns an
  output sequence as long as the input, in the same order: its element \<open>i\<close> is the
  resource that \<^verbatim>\<open>convertResource\<close> returns for the input's element \<open>i\<close>, which is the
  second stage of one converter applied to what its first stage returned. This sequence
  is the one handed to the printer.
\<close>

theorem Convert_order_preserved:
  assumes "\<forall>r\<in>set resV1. snd (fst (convertResource ul lib r)) = None"
  shows "\<exists>out calls.
      Convert_loop ul lib resV1 [] = (Returned out, calls) \<and>
      out = map (\<lambda>r. fst (fst (convertResource ul lib r))) resV1 \<and>
      length out = length resV1 \<and>
      (\<forall>i<length resV1. out ! i = fst (fst (convertResource ul lib (resV1 ! i)))) \<and>
      (\<forall>i<length resV1. \<exists>c. out ! i =
         fst (BackendV1ToAPIV3 (lib c) (fst (APIV1ToBackendV1 (lib c) (resV1 ! i))))) \<and>
      Call_print out \<in> set (snd (Convert ul lib rp resV1))"
proof -
  let ?out = "map (\<lambda>r. fst (fst (convertResource ul lib r))) resV1"
  let ?calls = "concat (map (\<lambda>r. snd (convertResource ul lib r)) resV1)"
  have l: "Convert_loop ul lib resV1 [] = (Returned ?out, ?calls)"
    using Convert_loop_all_ok [OF assms, of "[]"] by simp
  have p: "Call_print ?out \<in> set (snd (Convert ul lib rp resV1))"
    using Convert_success [OF assms, of rp] by simp
  have s: "\<forall>i<length resV1. \<exists>c. ?out ! i =
         fst (BackendV1ToAPIV3 (lib c) (fst (APIV1ToBackendV1 (lib c) (resV1 ! i))))"
  proof (intro allI impI)
    fix i assume i: "i < length resV1"
    with assms have "snd (fst (convertResource ul lib (resV1 ! i))) = None" by simp
    from convertResource_ok_stages [OF this] i
    show "\<exists>c. ?out ! i =
         fst (BackendV1ToAPIV3 (lib c) (fst (APIV1ToBackendV1 (lib c) (resV1 ! i))))"
      by simp
  qed
  from l p s show ?thesis by simp
qed

theorem Convert_order_preserved_witness:
  "snd (fst (convertResource sample_ul sample_lib (sample_resource ''node'' ''n1''))) = None \<and>
   snd (fst (convertResource sample_ul sample_lib (sample_resource ''policy'' ''p1''))) = None \<and>
   fst (Convert_loop sample_ul sample_lib good_batch []) =
     Returned [Some ''Node/n1'', Some ''Policy/p1''] \<and>
   Call_print [Some ''Node/n1'', Some ''Policy/p1''] \<in>
     set (snd (Convert sample_ul sample_lib printer_ok good_batch))"
  using Convert_order_preserved [OF good_batch_ok, of printer_ok]
  by (auto simp: good_batch_def sample_node sample_policy)

text \<open>
  C3: for each of the seven kind strings of the switch, a resource whose kind is any
  letter-casing of that string is converted by the converter of that kind:
  \<^verbatim>\<open>convertResource\<close> is \<^verbatim>\<open>convert\<close> with that converter, whatever the library.
\<close>

theorem dispatch_any_casing:
  assumes "letter_casing_of s (Kind (GetTypeMetadata r))"
  shows "(s = ''node'' \<longrightarrow> convertResource ul lib r = convert lib conversion_Node r) \<and>
   (s = ''hostendpoint'' \<longrightarrow> convertResource ul lib r = convert lib conversion_HostEndpoint r) \<and>
   (s = ''workloadendpoint'' \<longrightarrow>
      convertResource ul lib r = convert lib conversion_WorkloadEndpoint r) \<and>
   (s = ''profile'' \<longrightarrow> convertResource ul lib r = convert lib conversion_Profile r) \<and>
   (s = ''policy'' \<longrightarrow> convertResource ul lib r = convert lib conversion_Policy r) \<and>
   (s = ''ippool'' \<longrightarrow> convertResource ul lib r = convert lib conversion_IPPool r) \<and>
   (s = ''bgppeer'' \<longrightarrow> convertResource ul lib r = convert lib conversion_BGPPeer r)"
proof (intro conjI impI)
  assume s: "s = ''node''"
  have "lower_letters ''node''" by (simp add: lower_letters_def)
  with assms s have "ToLower ul (Kind (GetTypeMetadata r)) = ''node''"
    by (simp add: casing_ToLower)
  then show "convertResource ul lib r = convert lib conversion_Node r"
    by (simp add: convertResource_def)
next
  assume s: "s = ''hostendpoint''"
  have "lower_letters ''hostendpoint''" by (simp add: lower_letters_def)
  with assms s have "ToLower ul (Kind (GetTypeMetadata r)) = ''hostendpoint''"
    by (simp add: casing_ToLower)
  then show "convertResource ul lib r = convert lib conversion_HostEndpoint r"
    by (simp add: convertResource_def)
next
  assume s: "s = ''workloadendpoint''"
  have "lower_letters ''workloadendpoint''" by (simp add: lower_letters_def)
  with assms s have "ToLower ul (Kind (GetTypeMetadata r)) = ''workloadendpoint''"
    by (simp add: casing_ToLower)
  then show "convertResource ul lib r = convert lib conversion_WorkloadEndpoint r"
    by (simp add: convertResource_def)
next
  assume s: "s = ''profile''"
  have "lower_letters ''profile''" by (simp add: lower_letters_def)
  with assms s have "ToLower ul (Kind (GetTypeMetadata r)) = ''profile''"
    by (simp add: casing_ToLower)
  then show "convertResource ul lib r = convert lib conversion_Profile r"
    by (simp add: convertResource_def)
next
  assume s: "s = ''policy''"
  have "lower_letters ''policy''" by (simp add: lower_letters_def)
  with assms s have "ToLower ul (Kind (GetTypeMetadata r)) = ''policy''"
    by (simp add: casing_ToLower)
  then show "convertResource ul lib r = convert lib conversion_Policy r"
    by (simp add: convertResource_def)
next
  assume s: "s = ''ippool''"
  have "lower_letters ''ippool''" by (simp add: lower_letters_def)
  with assms s have "ToLower ul (Kind (GetTypeMetadata r)) = ''ippool''"
    by (simp add: casing_ToLower)
  then show "convertResource ul lib r = convert lib conversion_IPPool r"
    by (simp add: convertResource_def)
next
  assume s: "s = ''bgppeer''"
  have "lower_letters ''bgppeer''" by (simp add: lower_letters_def)
  with assms s have "ToLower ul (Kind (GetTypeMetadata r)) = ''bgppeer''"
    by (simp add: casing_ToLower)
  then show "convertResource ul lib r = convert lib conversion_BGPPeer r"
    by (simp add: convertResource_def)
qed

theorem dispatch_any_casing_witness:
  "letter_casing_of ''ippool'' ''IPPool'' \<and>
   convertResource sample_ul sample_lib (sample_resource ''IPPool'' ''pool1'') =
     ((Some ''IPPool/pool1'', None),
      [Call_APIV1ToBackendV1 conversion_IPPool (sample_resource ''IPPool'' ''pool1''),
       Call_BackendV1ToAPIV3 conversion_IPPool (Some ''pool1'')])"
proof -
  have h: "letter_casing_of ''ippool'' (Kind (GetTypeMetadata (sample_resource ''IPPool'' ''pool1'')))"
    by (simp add: letter_casing_of_def upper_byte_def char_eq_char_of sample_resource_def)
  have c: "convert sample_lib conversion_IPPool (sample_resource ''IPPool'' ''pool1'') =
     ((Some ''IPPool/pool1'', None),
      [Call_APIV1ToBackendV1 conversion_IPPool (sample_resource ''IPPool'' ''pool1''),
       Call_BackendV1ToAPIV3 conversion_IPPool (Some ''pool1'')])"
    by (simp add: convert_def sample_lib_def sample_resource_def)
  from h have "letter_casing_of ''ippool'' ''IPPool''" by (simp add: sample_resource_def)
  with dispatch_any_casing [OF h, of sample_ul sample_lib] c show ?thesis by simp
qed

text \<open>
  C4: a resource whose lower-cased kind is none of the seven strings of the switch is
  rejected without any converter call, and the message of the error holds its kind as
  written, not lower-cased, between single quotes.
\<close>

theorem dispatch_rejects_other_kinds:
  assumes "ToLower ul (Kind (GetTypeMetadata r)) \<notin>
      {''node'', ''hostendpoint'', ''workloadendpoint'', ''profile'', ''policy'', ''ippool'',
       ''bgppeer''}"
  shows "convertResource ul lib r =
      ((None,
        Some (''conversion for the resource type '' @ [CHR 0x27] @ Kind (GetTypeMetadata r) @
              [CHR 0x27] @ '' is not supported'')),
       [])"
  using convertResource_default [OF assms] by (simp add: Errorf_not_supported_def)

theorem dispatch_rejects_other_kinds_witness:
  "ToLower sample_ul ''Widget'' = ''widget'' \<and>
   convertResource sample_ul sample_lib (sample_resource ''Widget'' ''w1'') =
     ((None, Some (''conversion for the resource type '' @ [CHR 0x27] @ ''Widget'' @
              [CHR 0x27] @ '' is not supported'')), [])"
proof -
  have l: "ToLower sample_ul ''Widget'' = ''widget''"
    by (simp add: ToLower_def isASCII_def lower_byte_def char_of_eq_iff)
  then have "ToLower sample_ul (Kind (GetTypeMetadata (sample_resource ''Widget'' ''w1''))) \<notin>
      {''node'', ''hostendpoint'', ''workloadendpoint'', ''profile'', ''policy'', ''ippool'',
       ''bgppeer''}"
    by (simp add: sample_resource_def)
  from dispatch_rejects_other_kinds [OF this, of sample_lib] l show ?thesis
    by (simp add: sample_resource_def)
qed

text \<open>
  C5: \<^verbatim>\<open>convert\<close> calls the first stage, then the second stage on the KVPair the first
  returned. An error of the first stage is the result, and then the first stage is the
  only call made; an error of the second stage is the result; otherwise the result is
  the resource of the second stage.
\<close>

theorem convert_two_stages:
  "(snd (APIV1ToBackendV1 (lib c) r) \<noteq> None \<longrightarrow>
      convert lib c r =
        ((None, snd (APIV1ToBackendV1 (lib c) r)), [Call_APIV1ToBackendV1 c r])) \<and>
   (snd (APIV1ToBackendV1 (lib c) r) = None \<longrightarrow>
      snd (convert lib c r) =
        [Call_APIV1ToBackendV1 c r,
         Call_BackendV1ToAPIV3 c (fst (APIV1ToBackendV1 (lib c) r))]) \<and>
   (snd (APIV1ToBackendV1 (lib c) r) = None \<longrightarrow>
    snd (BackendV1ToAPIV3 (lib c) (fst (APIV1ToBackendV1 (lib c) r))) \<noteq> None \<longrightarrow>
      fst (convert lib c r) =
        (None, snd (BackendV1ToAPIV3 (lib c) (fst (APIV1ToBackendV1 (lib c) r))))) \<and>
   (snd (APIV1ToBackendV1 (lib c) r) = None \<longrightarrow>
    snd (BackendV1ToAPIV3 (lib c) (fst (APIV1ToBackendV1 (lib c) r))) = None \<longrightarrow>
      fst (convert lib c r) =
        (fst (BackendV1ToAPIV3 (lib c) (fst (APIV1ToBackendV1 (lib c) r))), None))"
  by (simp add: convert_def split: prod.splits option.splits)

theorem convert_two_stages_witness:
  "convert sample_lib conversion_Profile (sample_resource ''profile'' '''') =
     ((None, Some ''name is empty''),
      [Call_APIV1ToBackendV1 conversion_Profile (sample_resource ''profile'' '''')]) \<and>
   convert sample_lib conversion_Profile (sample_resource ''profile'' ''bad'') =
     ((None, Some ''bad key''),
      [Call_APIV1ToBackendV1 conversion_Profile (sample_resource ''profile'' ''bad''),
       Call_BackendV1ToAPIV3 conversion_Profile (Some ''bad'')]) \<and>
   convert sample_lib conversion_Profile (sample_resource ''profile'' ''p1'') =
     ((Some ''Profile/p1'', None),
      [Call_APIV1ToBackendV1 conversion_Profile (sample_resource ''profile'' ''p1''),
       Call_BackendV1ToAPIV3 conversion_Profile (Some ''p1'')])"
proof -
  have s1: "APIV1ToBackendV1 (sample_lib conversion_Profile) (sample_resource ''profile'' '''') =
      (None, Some ''name is empty'')"
    by (simp add: sample_lib_def sample_resource_def)
  have s2: "APIV1ToBackendV1 (sample_lib conversion_Profile) (sample_resource ''profile'' ''bad'') =
      (Some ''bad'', None)"
    "BackendV1ToAPIV3 (sample_lib conversion_Profile) (Some ''bad'') = (Some ''bad'', Some ''bad key'')"
    by (simp_all add: sample_lib_def sample_resource_def)
  have s3: "APIV1ToBackendV1 (sample_lib conversion_Profile) (sample_resource ''profile'' ''p1'') =
      (Some ''p1'', None)"
    "BackendV1ToAPIV3 (sample_lib conversion_Profile) (Some ''p1'') = (Some ''Profile/p1'', None)"
    by (simp_all add: sample_lib_def sample_resource_def)
  from convert_two_stages [of sample_lib conversion_Profile "sample_resource ''profile'' ''''"] s1
  have a: "convert sample_lib conversion_Profile (sample_resource ''profile'' '''') =
     ((None, Some ''name is empty''),
      [Call_APIV1ToBackendV1 conversion_Profile (sample_resource ''profile'' '''')])"
    by simp
  from convert_two_stages [of sample_lib conversion_Profile "sample_resource ''profile'' ''bad''"] s2
  have b: "convert sample_lib conversion_Profile (sample_resource ''profile'' ''bad'') =
     ((None, Some ''bad key''),
      [Call_APIV1ToBackendV1 conversion_Profile (sample_resource ''profile'' ''bad''),
       Call_BackendV1ToAPIV3 conversion_Profile (Some ''bad'')])"
    by (simp add: prod_eq_iff)
  from convert_two_stages [of sample_lib conversion_Profile "sample_resource ''profile'' ''p1''"] s3
  have c: "convert sample_lib conversion_Profile (sample_resource ''profile'' ''p1'') =
     ((Some ''Profile/p1'', None),
      [Call_APIV1ToBackendV1 conversion_Profile (sample_resource ''profile'' ''p1''),
       Call_BackendV1ToAPIV3 conversion_Profile (Some ''p1'')])"
    by (simp add: prod_eq_iff)
  from a b c show ?thesis by simp
qed

text \<open>
  C6, as the claim states it, fails: on a resource of unknown kind the command ends the
  process with status 1, and on a batch that converts it logs the results.
\<close>

theorem Convert_exits_and_logs_counterexample:
  "fst (Convert sample_ul sample_lib printer_ok [sample_resource ''widget'' ''w1'']) = Exited 1 \<and>
   Log_Infof [Some ''Node/n1'', Some ''Policy/p1''] \<in>
     set (snd (Convert sample_ul sample_lib printer_ok good_batch))"
  by (simp add: widget_run good_batch_run printer_ok_def)

text \<open>
  C6, amended: \<^verbatim>\<open>convertResource\<close> and \<^verbatim>\<open>convert\<close> do nothing but call the converter
  library and return. \<^verbatim>\<open>Convert\<close> does not hand a conversion error to its caller: when
  some resource fails, there is a first one that does, and after the converter calls for
  the resources before it and for it, the command writes the error of that first
  failing resource to standard output and ends the process with status 1, with no
  other event. When every resource converts, the command logs the results right after
  the converter calls and right before it calls the printer with them; and when the
  printer then returns no error, the command returns.
\<close>

theorem Convert_exits_and_logs:
  "list_all is_converter_call (snd (convertResource ul lib r)) \<and>
   list_all is_converter_call (snd (convert lib c r)) \<and>
   (resV1 = ys @ y # zs \<longrightarrow>
    (\<forall>x\<in>set ys. snd (fst (convertResource ul lib x)) = None) \<longrightarrow>
    snd (fst (convertResource ul lib y)) = Some e \<longrightarrow>
      Convert ul lib rp resV1 =
        (Exited 1,
         concat (map (\<lambda>r. snd (convertResource ul lib r)) ys) @ snd (convertResource ul lib y) @
         [Stdout (''Failed to execute command: '' @ e @ [CHR 0x0A])])) \<and>
   ((\<exists>x\<in>set resV1. snd (fst (convertResource ul lib x)) \<noteq> None) \<longrightarrow>
      (\<exists>ys' y' zs' e'. resV1 = ys' @ y' # zs' \<and>
         (\<forall>x\<in>set ys'. snd (fst (convertResource ul lib x)) = None) \<and>
         snd (fst (convertResource ul lib y')) = Some e')) \<and>
   ((\<forall>x\<in>set resV1. snd (fst (convertResource ul lib x)) = None) \<longrightarrow>
      snd (Convert ul lib rp resV1) =
        concat (map (\<lambda>r. snd (convertResource ul lib r)) resV1) @
        [Log_Infof (map (\<lambda>r. fst (fst (convertResource ul lib r))) resV1),
         Call_print (map (\<lambda>r. fst (fst (convertResource ul lib r))) resV1)] @
        (case rp (map (\<lambda>r. fst (fst (convertResource ul lib r))) resV1) of
           None \<Rightarrow> []
         | Some err \<Rightarrow> [Stdout (err @ [CHR 0x0A])]) \<and>
      (rp (map (\<lambda>r. fst (fst (convertResource ul lib r))) resV1) = None \<longrightarrow>
         fst (Convert ul lib rp resV1) = Returned ()))"
proof (intro conjI impI)
  show "list_all is_converter_call (snd (convertResource ul lib r))"
    by (rule convertResource_calls)
next
  show "list_all is_converter_call (snd (convert lib c r))"
    by (rule convert_calls)
next
  assume xs: "resV1 = ys @ y # zs"
    and ok: "\<forall>x\<in>set ys. snd (fst (convertResource ul lib x)) = None"
    and e: "snd (fst (convertResource ul lib y)) = Some e"
  from Convert_loop_first_error [OF ok e, of zs "[]"] xs
  show "Convert ul lib rp resV1 =
        (Exited 1,
         concat (map (\<lambda>r. snd (convertResource ul lib r)) ys) @ snd (convertResource ul lib y) @
         [Stdout (''Failed to execute command: '' @ e @ [CHR 0x0A])])"
    by (simp add: Convert_def)
next
  assume "\<exists>x\<in>set resV1. snd (fst (convertResource ul lib x)) \<noteq> None"
  then obtain x where "x \<in> set resV1" "snd (fst (convertResource ul lib x)) \<noteq> None"
    by blast
  from failing_split [OF this]
  show "\<exists>ys' y' zs' e'. resV1 = ys' @ y' # zs' \<and>
         (\<forall>x\<in>set ys'. snd (fst (convertResource ul lib x)) = None) \<and>
         snd (fst (convertResource ul lib y')) = Some e'" .
next
  assume ok: "\<forall>x\<in>set resV1. snd (fst (convertResource ul lib x)) = None"
  from Convert_success [OF ok, of rp]
  show "snd (Convert ul lib rp resV1) =
        concat (map (\<lambda>r. snd (convertResource ul lib r)) resV1) @
        [Log_Infof (map (\<lambda>r. fst (fst (convertResource ul lib r))) resV1),
         Call_print (map (\<lambda>r. fst (fst (convertResource ul lib r))) resV1)] @
        (case rp (map (\<lambda>r. fst (fst (convertResource ul lib r))) resV1) of
           None \<Rightarrow> []
         | Some err \<Rightarrow> [Stdout (err @ [CHR 0x0A])])"
    by simp
next
  assume ok: "\<forall>x\<in>set resV1. snd (fst (convertResource ul lib x)) = None"
  from Convert_success [OF ok, of rp]
  show "fst (Convert ul lib rp resV1) = Returned ()" by simp
qed

theorem Convert_exits_and_logs_witness:
  "two_failures =
     [] @ sample_resource ''widget'' ''w1'' # [sample_resource ''profile'' []] \<and>
   snd (fst (convertResource sample_ul sample_lib (sample_resource ''widget'' ''w1''))) =
     Some (Errorf_not_supported ''widget'') \<and>
   snd (fst (convertResource sample_ul sample_lib (sample_resource ''profile'' []))) =
     Some ''name is empty'' \<and>
   Convert sample_ul sample_lib printer_ok two_failures =
     (Exited 1,
      [Stdout (''Failed to execute command: '' @ Errorf_not_supported ''widget'' @ [CHR 0x0A])]) \<and>
   snd (fst (convertResource sample_ul sample_lib (sample_resource ''node'' ''n1''))) = None \<and>
   snd (fst (convertResource sample_ul sample_lib (sample_resource ''policy'' ''p1''))) = None \<and>
   printer_ok [Some ''Node/n1'', Some ''Policy/p1''] = None \<and>
   Convert sample_ul sample_lib printer_ok good_batch =
     (Returned (),
      [Call_APIV1ToBackendV1 conversion_Node (sample_resource ''node'' ''n1''),
       Call_BackendV1ToAPIV3 conversion_Node (Some ''n1''),
       Call_APIV1ToBackendV1 conversion_Policy (sample_resource ''policy'' ''p1''),
       Call_BackendV1ToAPIV3 conversion_Policy (Some ''p1''),
       Log_Infof [Some ''Node/n1'', Some ''Policy/p1''],
       Call_print [Some ''Node/n1'', Some ''Policy/p1'']])"
proof -
  have p: "snd (fst (convertResource sample_ul sample_lib (sample_resource ''profile'' []))) =
     Some ''name is empty''"
    by (simp add: convertResource_def ToLower_def isASCII_def lower_byte_def convert_def
      sample_lib_def sample_resource_def)
  have w: "snd (fst (convertResource sample_ul sample_lib (sample_resource ''widget'' ''w1''))) =
     Some (Errorf_not_supported ''widget'')"
    by (simp add: sample_widget)
  have t: "two_failures =
     [] @ sample_resource ''widget'' ''w1'' # [sample_resource ''profile'' []]"
    by (simp add: two_failures_def)
  from t w Convert_exits_and_logs [of sample_ul sample_lib _ _ two_failures
      "[]" "sample_resource ''widget'' ''w1''" "[sample_resource ''profile'' []]"
      "Errorf_not_supported ''widget''" printer_ok]
  have a: "Convert sample_ul sample_lib printer_ok two_failures =
     (Exited 1,
      [Stdout (''Failed to execute command: '' @ Errorf_not_supported ''widget'' @ [CHR 0x0A])])"
    by (simp add: sample_widget)
  have m: "map (\<lambda>r. fst (fst (convertResource sample_ul sample_lib r))) good_batch =
      [Some ''Node/n1'', Some ''Policy/p1'']"
    by (simp add: good_batch_def sample_node sample_policy)
  have c: "concat (map (\<lambda>r. snd (convertResource sample_ul sample_lib r)) good_batch) =
     [Call_APIV1ToBackendV1 conversion_Node (sample_resource ''node'' ''n1''),
      Call_BackendV1ToAPIV3 conversion_Node (Some ''n1''),
      Call_APIV1ToBackendV1 conversion_Policy (sample_resource ''policy'' ''p1''),
      Call_BackendV1ToAPIV3 conversion_Policy (Some ''p1'')]"
    by (simp add: good_batch_def sample_node sample_policy)
  have q: "printer_ok [Some ''Node/n1'', Some ''Policy/p1''] = None"
    by (simp add: printer_ok_def)
  from good_batch_ok m c q Convert_exits_and_logs [of sample_ul sample_lib _ _ good_batch
      _ _ _ _ printer_ok]
  have b: "snd (Convert sample_ul sample_lib printer_ok good_batch) =
      [Call_APIV1ToBackendV1 conversion_Node (sample_resource ''node'' ''n1''),
       Call_BackendV1ToAPIV3 conversion_Node (Some ''n1''),
       Call_APIV1ToBackendV1 conversion_Policy (sample_resource ''policy'' ''p1''),
       Call_BackendV1ToAPIV3 conversion_Policy (Some ''p1''),
       Log_Infof [Some ''Node/n1'', Some ''Policy/p1''],
       Call_print [Some ''Node/n1'', Some ''Policy/p1'']] \<and>
     fst (Convert sample_ul sample_lib printer_ok good_batch) = Returned ()"
    by simp
  then have "Convert sample_ul sample_lib printer_ok good_batch =
     (Returned (),
      [Call_APIV1ToBackendV1 conversion_Node (sample_resource ''node'' ''n1''),
       Call_BackendV1ToAPIV3 conversion_Node (Some ''n1''),
       Call_APIV1ToBackendV1 conversion_Policy (sample_resource ''policy'' ''p1''),
       Call_BackendV1ToAPIV3 conversion_Policy (Some ''p1''),
       Log_Infof [Some ''Node/n1'', Some ''Policy/p1''],
       Call_print [Some ''Node/n1'', Some ''Policy/p1'']])"
    by (simp add: prod_eq_iff)
  with a p w q t show ?thesis by (simp add: sample_node sample_policy)
qed

text \<open>
  C7: on the empty sequence of resources the loop returns the empty output sequence at
  once: it calls no converter, reports no error and does not end the process. The
  command then logs the empty sequence, hands it to the printer and returns.
\<close>

theorem Convert_empty:
  "Convert_loop ul lib [] [] = (Returned [], []) \<and>
   Convert ul lib rp [] =
     (Returned (),
      [Log_Infof [], Call_print []] @
      (case rp [] of None \<Rightarrow> [] | Some err \<Rightarrow> [Stdout (err @ [CHR 0x0A])]))"
  by (simp add: Convert_def)

text \<open>
  C8: which case of the switch a resource takes depends on its kind string alone: two
  resources of the same kind are converted by the same converter, whatever the library,
  or are both rejected with the same error. And a resource is converted to the same
  result wherever it stands: in two runs that return, equal resources at positions
  \<open>i\<close> and \<open>j\<close> give equal outputs at \<open>i\<close> and \<open>j\<close>.
\<close>

theorem dispatch_deterministic:
  fixes lib :: "conversion \<Rightarrow> ('b, 'k, 'o) Converter" and r1 r2 :: "'b Resource"
  shows "(Kind (GetTypeMetadata r1) = Kind (GetTypeMetadata r2) \<longrightarrow>
      (\<exists>c. \<forall>l :: conversion \<Rightarrow> ('b, 'k, 'o) Converter.
              convertResource ul l r1 = convert l c r1 \<and>
              convertResource ul l r2 = convert l c r2) \<or>
      (\<forall>l :: conversion \<Rightarrow> ('b, 'k, 'o) Converter.
              convertResource ul l r1 =
                ((None, Some (Errorf_not_supported (Kind (GetTypeMetadata r1)))), []) \<and>
              convertResource ul l r2 =
                ((None, Some (Errorf_not_supported (Kind (GetTypeMetadata r1)))), []))) \<and>
   (Convert_loop ul lib xs [] = (Returned outx, evx) \<longrightarrow>
    Convert_loop ul lib ys [] = (Returned outy, evy) \<longrightarrow>
    i < length xs \<longrightarrow> j < length ys \<longrightarrow> xs ! i = ys ! j \<longrightarrow> outx ! i = outy ! j)"
proof (intro conjI impI)
  assume k: "Kind (GetTypeMetadata r1) = Kind (GetTypeMetadata r2)"
  let ?k = "ToLower ul (Kind (GetTypeMetadata r1))"
  have k2: "ToLower ul (Kind (GetTypeMetadata r2)) = ?k" using k by simp
  let ?S = "{''node'', ''hostendpoint'', ''workloadendpoint'', ''profile'', ''policy'',
      ''ippool'', ''bgppeer''}"
  let ?goal = "(\<exists>c. \<forall>l :: conversion \<Rightarrow> ('b, 'k, 'o) Converter.
              convertResource ul l r1 = convert l c r1 \<and>
              convertResource ul l r2 = convert l c r2) \<or>
      (\<forall>l :: conversion \<Rightarrow> ('b, 'k, 'o) Converter.
              convertResource ul l r1 =
                ((None, Some (Errorf_not_supported (Kind (GetTypeMetadata r1)))), []) \<and>
              convertResource ul l r2 =
                ((None, Some (Errorf_not_supported (Kind (GetTypeMetadata r1)))), []))"
  have sel: "\<And>c. (\<And>l :: conversion \<Rightarrow> ('b, 'k, 'o) Converter.
              convertResource ul l r1 = convert l c r1 \<and>
              convertResource ul l r2 = convert l c r2) \<Longrightarrow> ?goal"
    by blast
  show ?goal
  proof (cases "?k \<in> ?S")
    case False
    with k2 have "ToLower ul (Kind (GetTypeMetadata r2)) \<notin> ?S" by simp
    with False k have "\<forall>l :: conversion \<Rightarrow> ('b, 'k, 'o) Converter.
              convertResource ul l r1 =
                ((None, Some (Errorf_not_supported (Kind (GetTypeMetadata r1)))), []) \<and>
              convertResource ul l r2 =
                ((None, Some (Errorf_not_supported (Kind (GetTypeMetadata r1)))), [])"
      by (simp add: convertResource_default)
    then show ?thesis by (rule disjI2)
  next
    case True
    then consider "?k = ''node''" | "?k = ''hostendpoint''" | "?k = ''workloadendpoint''"
      | "?k = ''profile''" | "?k = ''policy''" | "?k = ''ippool''" | "?k = ''bgppeer''"
      by auto
    then show ?thesis
    proof cases
      case 1
      have "convertResource ul l r1 = convert l conversion_Node r1 \<and>
            convertResource ul l r2 = convert l conversion_Node r2"
        for l :: "conversion \<Rightarrow> ('b, 'k, 'o) Converter"
        using 1 k2 by (simp add: convertResource_def)
      then show ?thesis by (rule sel)
    next
      case 2
      have "convertResource ul l r1 = convert l conversion_HostEndpoint r1 \<and>
            convertResource ul l r2 = convert l conversion_HostEndpoint r2"
        for l :: "conversion \<Rightarrow> ('b, 'k, 'o) Converter"
        using 2 k2 by (simp add: convertResource_def)
      then show ?thesis by (rule sel)
    next
      case 3
      have "convertResource ul l r1 = convert l conversion_WorkloadEndpoint r1 \<and>
            convertResource ul l r2 = convert l conversion_WorkloadEndpoint r2"
        for l :: "conversion \<Rightarrow> ('b, 'k, 'o) Converter"
        using 3 k2 by (simp add: convertResource_def)
      then show ?thesis by (rule sel)
    next
      case 4
      have "convertResource ul l r1 = convert l conversion_Profile r1 \<and>
            convertResource ul l r2 = convert l conversion_Profile r2"
        for l :: "conversion \<Rightarrow> ('b, 'k, 'o) Converter"
        using 4 k2 by (simp add: convertResource_def)
      then show ?thesis by (rule sel)
    next
      case 5
      have "convertResource ul l r1 = convert l conversion_Policy r1 \<and>
            convertResource ul l r2 = convert l conversion_Policy r2"
        for l :: "conversion \<Rightarrow> ('b, 'k, 'o) Converter"
        using 5 k2 by (simp add: convertResource_def)
      then show ?thesis by (rule sel)
    next
      case 6
      have "convertResource ul l r1 = convert l conversion_IPPool r1 \<and>
            convertResource ul l r2 = convert l conversion_IPPool r2"
        for l :: "conversion \<Rightarrow> ('b, 'k, 'o) Converter"
        using 6 k2 by (simp add: convertResource_def)
      then show ?thesis by (rule sel)
    next
      case 7
      have "convertResource ul l r1 = convert l conversion_BGPPeer r1 \<and>
            convertResource ul l r2 = convert l conversion_BGPPeer r2"
        for l :: "conversion \<Rightarrow> ('b, 'k, 'o) Converter"
        using 7 k2 by (simp add: convertResource_def)
      then show ?thesis by (rule sel)
    qed
  qed
next
  assume x: "Convert_loop ul lib xs [] = (Returned outx, evx)"
    and y: "Convert_loop ul lib ys [] = (Returned outy, evy)"
    and i: "i < length xs" and j: "j < length ys" and e: "xs ! i = ys ! j"
  from Convert_loop_Returned [OF x] Convert_loop_Returned [OF y] i j e
  show "outx ! i = outy ! j" by simp
qed

theorem dispatch_deterministic_witness:
  "Kind (GetTypeMetadata (sample_resource ''Node'' ''n1'')) =
     Kind (GetTypeMetadata (sample_resource ''Node'' ''n2'')) \<and>
   ((\<exists>c. \<forall>l :: conversion \<Rightarrow> (string, string, string) Converter.
          convertResource sample_ul l (sample_resource ''Node'' ''n1'') =
            convert l c (sample_resource ''Node'' ''n1'') \<and>
          convertResource sample_ul l (sample_resource ''Node'' ''n2'') =
            convert l c (sample_resource ''Node'' ''n2'')) \<or>
    (\<forall>l :: conversion \<Rightarrow> (string, string, string) Converter.
          convertResource sample_ul l (sample_resource ''Node'' ''n1'') =
            ((None, Some (Errorf_not_supported ''Node'')), []) \<and>
          convertResource sample_ul l (sample_resource ''Node'' ''n2'') =
            ((None, Some (Errorf_not_supported ''Node'')), []))) \<and>
   fst (Convert_loop sample_ul sample_lib good_batch []) =
     Returned [Some ''Node/n1'', Some ''Policy/p1''] \<and>
   fst (Convert_loop sample_ul sample_lib [sample_resource ''policy'' ''p1''] []) =
     Returned [Some ''Policy/p1''] \<and>
   good_batch ! 1 = [sample_resource ''policy'' ''p1''] ! 0 \<and>
   [Some ''Node/n1'', Some ''Policy/p1''] ! 1 = [Some ''Policy/p1''] ! 0"
proof -
  have k: "Kind (GetTypeMetadata (sample_resource ''Node'' ''n1'')) =
     Kind (GetTypeMetadata (sample_resource ''Node'' ''n2''))"
    by (simp add: sample_resource_def)
  have x: "Convert_loop sample_ul sample_lib good_batch [] =
     (Returned [Some ''Node/n1'', Some ''Policy/p1''],
      [Call_APIV1ToBackendV1 conversion_Node (sample_resource ''node'' ''n1''),
       Call_BackendV1ToAPIV3 conversion_Node (Some ''n1''),
       Call_APIV1ToBackendV1 conversion_Policy (sample_resource ''policy'' ''p1''),
       Call_BackendV1ToAPIV3 conversion_Policy (Some ''p1'')])"
    by (simp add: good_batch_def sample_node sample_policy)
  have y: "Convert_loop sample_ul sample_lib [sample_resource ''policy'' ''p1''] [] =
     (Returned [Some ''Policy/p1''],
      [Call_APIV1ToBackendV1 conversion_Policy (sample_resource ''policy'' ''p1''),
       Call_BackendV1ToAPIV3 conversion_Policy (Some ''p1'')])"
    by (simp add: sample_policy)
  have e: "good_batch ! 1 = [sample_resource ''policy'' ''p1''] ! 0"
    by (simp add: good_batch_def)
  have n: "Kind (GetTypeMetadata (sample_resource ''Node'' ''n1'')) = ''Node''"
    by (simp add: sample_resource_def)
  from dispatch_deterministic [of "sample_resource ''Node'' ''n1''" "sample_resource ''Node'' ''n2''"
      sample_ul sample_lib good_batch "[Some ''Node/n1'', Some ''Policy/p1'']" _
      "[sample_resource ''policy'' ''p1'']" "[Some ''Policy/p1'']" _ 1 0]
    k x y e n
  show ?thesis by (simp add: good_batch_def)
qed




text \<open>
  C10: when \<^verbatim>\<open>convertResource\<close> or \<^verbatim>\<open>convert\<close> returns an error, the resource it returns
  with it is nil, also when the converter stage that failed returned a value beside
  its error.
\<close>

theorem error_means_nil_result:
  "(snd (fst (convertResource ul lib r)) \<noteq> None \<longrightarrow> fst (fst (convertResource ul lib r)) = None) \<and>
   (snd (fst (convert lib c r)) \<noteq> None \<longrightarrow> fst (fst (convert lib c r)) = None)"
proof -
  have "snd (fst (convertResource ul lib r)) \<noteq> None \<longrightarrow> fst (fst (convertResource ul lib r)) = None"
    by (simp add: convertResource_def Let_def convert_error_nil)
  then show ?thesis by (simp add: convert_error_nil)
qed

theorem error_means_nil_result_witness:
  "BackendV1ToAPIV3 (sample_lib conversion_Profile) (Some ''bad'') = (Some ''bad'', Some ''bad key'') \<and>
   snd (fst (convertResource sample_ul sample_lib (sample_resource ''profile'' ''bad''))) =
     Some ''bad key'' \<and>
   fst (fst (convertResource sample_ul sample_lib (sample_resource ''profile'' ''bad''))) = None \<and>
   snd (fst (convert sample_lib conversion_Profile (sample_resource ''profile'' ''bad''))) =
     Some ''bad key'' \<and>
   fst (fst (convert sample_lib conversion_Profile (sample_resource ''profile'' ''bad''))) = None"
proof -
  have s: "BackendV1ToAPIV3 (sample_lib conversion_Profile) (Some ''bad'') = (Some ''bad'', Some ''bad key'')"
    by (simp add: sample_lib_def)
  have e1: "snd (fst (convert sample_lib conversion_Profile (sample_resource ''profile'' ''bad''))) =
     Some ''bad key''"
    by (simp add: convert_def sample_lib_def sample_resource_def)
  have e2: "snd (fst (convertResource sample_ul sample_lib (sample_resource ''profile'' ''bad''))) =
     Some ''bad key''"
    by (simp add: convertResource_def ToLower_def isASCII_def lower_byte_def convert_def
      sample_lib_def sample_resource_def)
  from error_means_nil_result [of sample_ul sample_lib "sample_resource ''profile'' ''bad''"
      conversion_Profile] s e1 e2
  show ?thesis by simp
qed

end
